theory Spec2Isabelle
  imports Main "HOL-Library.Word"
begin

section \<open>Data model of \<open>sdm/libs/core/core_impl.cpp\<close>\<close>

text \<open>
  Modelled from the spec: the enum \<open>DisplayError\<close> is declared in a header that is not
  part of the sources. \<open>core_impl.cpp\<close> names four of its values; every other value a
  collaborator can hand back ("pass-through errors from collaborators", section 7 of the
  spec) is \<open>kErrorOther n\<close>.
\<close>

datatype DisplayError =
    kErrorNone
  | kErrorUndefined
  | kErrorParameters
  | kErrorMemory
  | kErrorOther nat

text \<open>
  Modelled from the spec: the enum \<open>DisplayType\<close> is declared in a header that is not
  part of the sources. The two \<open>switch\<close> statements of \<open>core_impl.cpp\<close> name three
  values and have a \<open>default\<close> label; \<open>kDisplayTypeOther n\<close> stands for every value of
  the enum's underlying integer type that is none of the three.
\<close>

datatype DisplayType =
    kBuiltIn
  | kPluggable
  | kVirtual
  | kDisplayTypeOther nat

text \<open>\<open>int32_t display_id\<close>: only compared for equality (the key of a \<open>std::map\<close>).\<close>

type_synonym int32 = "32 word"

text \<open>
  Pointers are addresses; \<open>None\<close> is the null pointer. The pointees of the collaborator
  handles are opaque to this file.
\<close>

type_synonym ptr = "nat option"

text \<open>
  Modelled from the spec: \<open>HWDisplayInfo\<close> (section 3: a record of display type and
  status); \<open>core_impl.cpp\<close> reads the field \<open>display_type\<close> only.
\<close>

record HWDisplayInfo =
  display_type :: DisplayType
  display_status :: nat

text \<open>\<open>HWDisplaysInfo\<close> is a \<open>std::map\<close> from display id to \<open>HWDisplayInfo\<close>.\<close>

type_synonym HWDisplaysInfo = "int32 \<rightharpoonup> HWDisplayInfo"

text \<open>
  A display object as \<open>CreateDisplay\<close> constructs it: the variant selected by the
  \<open>switch\<close>, the display id threaded into the constructor (absent in the overload that
  takes a type), and the collaborators handed to the constructor.
\<close>

record DisplayBase =
  obj_variant :: DisplayType
  obj_display_id :: "int32 option"
  obj_event_handler :: nat
  obj_hw_info_intf :: ptr
  obj_buffer_allocator :: ptr

text \<open>
  The members of \<open>CoreImpl\<close> (the source's \<open>name_\<close> is \<open>m_name\<close> here, since an
  Isabelle name cannot end in an underscore) together with the
  state outside the object that its operations act on: the live Hardware Info Provider
  objects, the Color Manager, the disposition of \<open>SIGPIPE\<close>, and the heap cells of the
  display objects. A heap cell is addressed by its index; \<open>None\<close> is a released cell.
  \<open>m_comp_mgr\<close> records whether the member's \<open>Init\<close> has succeeded, \<open>m_extension_lib\<close>
  whether the library is open. A member pointer keeps its value when its object is
  destroyed, as in the source, which never resets one.
\<close>

record state =
  m_buffer_allocator :: ptr
  m_socket_handler :: ptr
  m_extension_lib :: bool
  m_create_extension_intf :: ptr
  m_destroy_extension_intf :: ptr
  m_extension_intf :: ptr
  m_hw_info_intf :: ptr
  m_hw_resource :: nat
  m_comp_mgr :: bool
  m_hw_displays_info :: HWDisplaysInfo
  hw_info_live :: "nat set"
  color_manager :: bool
  sigpipe_ignored :: bool
  display_heap :: "DisplayBase option list"

text \<open>
  Modelled from the spec: the collaborators of section 6 (extension module, Hardware Info
  Provider, Composition Manager, Color Manager, display variants) are not part of the
  sources. Their answers during one call of a public operation are the fields of \<open>env\<close>.
  A collaborator that writes through an out-parameter maps the old content to its error
  and the new content. \<open>operator_new_fails\<close> says whether the allocation of a
  \<open>new\<close>-expression fails during the call.
\<close>

record env =
  DynLib_Open :: bool
  DynLib_Sym_create :: ptr
  DynLib_Sym_destroy :: ptr
  CreateExtensionInterface :: "ptr \<Rightarrow> DisplayError \<times> ptr"
  HWInfoInterface_Create :: "ptr \<Rightarrow> DisplayError \<times> ptr"
  HWInfo_GetHWResourceInfo :: "nat \<Rightarrow> DisplayError \<times> nat"
  CompManager_Init :: DisplayError
  ColorManagerProxy_Init :: DisplayError
  HWInfo_GetDisplaysStatus :: "HWDisplaysInfo \<Rightarrow> DisplayError \<times> HWDisplaysInfo"
  HWInfo_GetFirstDisplayInterfaceType :: "nat \<Rightarrow> DisplayError \<times> nat"
  HWInfo_GetMaxDisplaysSupported :: "DisplayType \<Rightarrow> int \<Rightarrow> DisplayError \<times> int"
  CompManager_SetMaxBandwidthMode :: "nat \<Rightarrow> DisplayError"
  CompManager_IsRotatorSupportedFormat :: "nat \<Rightarrow> bool"
  operator_new_fails :: bool
  DisplayBase_Init :: "DisplayBase \<Rightarrow> DisplayError"
  DisplayBase_Deinit :: "DisplayBase \<Rightarrow> DisplayError"

text \<open>
  How a call ends: it returns a \<open>DisplayError\<close>, or a \<open>new\<close>-expression raises
  \<open>std::bad_alloc\<close> out of the function, or the function dereferences a null member
  pointer.
\<close>

datatype outcome =
    Return DisplayError
  | Throw_bad_alloc
  | Null_dereference

text \<open>The \<open>DLOGE\<close> and \<open>DLOGW\<close> lines of the source.\<close>

datatype log_event =
    LogE_UnableToLoadSymbols
  | LogE_UnableToCreateInterface
  | LogW_UnableToLoad
  | LogW_ColorManager
  | LogW_DisplaysStatus DisplayError
  | LogE_SpuriousDisplayType DisplayType
  | LogE_SpuriousDisplayId int32

record result =
  ret :: outcome
  logs :: "log_event list"
  post :: state

text \<open>\<open>intf_written\<close> is the value stored through \<open>*intf\<close>, if the call stored one.\<close>

record create_result = result +
  intf_written :: ptr

text \<open>\<open>buffer\<close> is the content of the caller's \<open>*hw_displays_info\<close> after the call.\<close>

record status_result = result +
  buffer :: HWDisplaysInfo

section \<open>The constructor\<close>

text \<open>
  Modelled from the spec: lines 43-46 store the two injected collaborators; the other
  members get their initial values in the class declaration, which is not part of the
  sources. Following section 3 of the spec (the extension interface is present only
  once the module has loaded, the snapshot is populated at init), pointers start as
  null and the \<open>std::map\<close> starts empty.
\<close>

definition CoreImpl :: "ptr \<Rightarrow> ptr \<Rightarrow> state \<Rightarrow> state" where
  "CoreImpl buffer_allocator socket_handler w =
     w\<lparr>m_buffer_allocator := buffer_allocator,
       m_socket_handler := socket_handler,
       m_extension_lib := False,
       m_create_extension_intf := None,
       m_destroy_extension_intf := None,
       m_extension_intf := None,
       m_hw_info_intf := None,
       m_hw_resource := 0,
       m_comp_mgr := False,
       m_hw_displays_info := Map.empty\<rparr>"

section \<open>Display factory\<close>

text \<open>
  A \<open>new\<close>-expression: \<open>None\<close> when the allocation fails (\<open>std::bad_alloc\<close> leaves the
  calling function), otherwise the pointer to a fresh heap cell holding the object.
\<close>

definition new_display :: "env \<Rightarrow> state \<Rightarrow> DisplayBase \<Rightarrow> (ptr \<times> state) option" where
  "new_display e s d =
     (if operator_new_fails e then None
      else Some (Some (length (display_heap s)),
                 s\<lparr>display_heap := display_heap s @ [Some d]\<rparr>))"

text \<open>\<open>delete display_base\<close>: the heap cell is released.\<close>

definition delete_display :: "nat \<Rightarrow> state \<Rightarrow> state" where
  "delete_display a s = s\<lparr>display_heap := (display_heap s)[a := None]\<rparr>"

text \<open>
  Lines 149-160 and 199-211, the same in both overloads: the null check of
  \<open>display_base\<close>, the object's own \<open>Init\<close>, \<open>delete\<close> on failure, the store through
  \<open>*intf\<close> on success. \<open>d\<close> is the object \<open>display_base\<close> points to.
\<close>

definition init_display :: "env \<Rightarrow> state \<Rightarrow> ptr \<Rightarrow> DisplayBase \<Rightarrow> create_result" where
  "init_display e s display_base d =
     (case display_base of
        None \<Rightarrow> \<lparr>ret = Return kErrorMemory, logs = [], post = s, intf_written = None\<rparr>
      | Some a \<Rightarrow>
          (let error = DisplayBase_Init e d in
           if error \<noteq> kErrorNone
           then \<lparr>ret = Return error, logs = [], post = delete_display a s, intf_written = None\<rparr>
           else \<lparr>ret = Return kErrorNone, logs = [], post = s, intf_written = Some a\<rparr>))"

text \<open>
  The object that the \<open>new\<close>-expressions of lines 133-142 and 183-192 construct: the
  variant of the \<open>case\<close> label, the display id (only in the overload that takes one), and
  the constructor arguments \<open>event_handler\<close>, \<open>hw_info_intf_\<close> and \<open>buffer_allocator_\<close>
  (\<open>&comp_mgr_\<close> is the same address in every call).
\<close>

definition display_object :: "state \<Rightarrow> DisplayType \<Rightarrow> int32 option \<Rightarrow> nat \<Rightarrow> DisplayBase" where
  "display_object s dtype display_id event_handler =
     \<lparr>obj_variant = dtype, obj_display_id = display_id,
      obj_event_handler = event_handler, obj_hw_info_intf = m_hw_info_intf s,
      obj_buffer_allocator = m_buffer_allocator s\<rparr>"

text \<open>
  Lines 129-147 and 178-197: the \<open>switch\<close> on the display type. The three named cases
  construct the variant with \<open>new\<close>; the \<open>default\<close> case logs and returns
  \<open>kErrorParameters\<close>. \<open>display_id\<close> is present in the overload that takes an id.
\<close>

definition construct_display ::
  "env \<Rightarrow> state \<Rightarrow> DisplayType \<Rightarrow> int32 option \<Rightarrow> nat \<Rightarrow> create_result" where
  "construct_display e s dtype display_id event_handler =
     (case dtype of
        kDisplayTypeOther n \<Rightarrow>
          \<lparr>ret = Return kErrorParameters, logs = [LogE_SpuriousDisplayType dtype],
           post = s, intf_written = None\<rparr>
      | _ \<Rightarrow>
          (case new_display e s (display_object s dtype display_id event_handler) of
             None \<Rightarrow> \<lparr>ret = Throw_bad_alloc, logs = [], post = s, intf_written = None\<rparr>
           | Some (display_base, s') \<Rightarrow>
               init_display e s' display_base
                 (display_object s dtype display_id event_handler)))"

text \<open>Lines 121-161: \<open>CreateDisplay(DisplayType type, ...)\<close>.\<close>

definition CreateDisplay :: "env \<Rightarrow> state \<Rightarrow> DisplayType \<Rightarrow> ptr \<Rightarrow> ptr \<Rightarrow> create_result" where
  "CreateDisplay e s type event_handler intf =
     (case (event_handler, intf) of
        (Some h, Some out) \<Rightarrow> construct_display e s type None h
      | _ \<Rightarrow> \<lparr>ret = Return kErrorParameters, logs = [], post = s, intf_written = None\<rparr>)"

text \<open>Lines 163-212: \<open>CreateDisplay(int32_t display_id, ...)\<close>.\<close>

definition CreateDisplay_id :: "env \<Rightarrow> state \<Rightarrow> int32 \<Rightarrow> ptr \<Rightarrow> ptr \<Rightarrow> create_result" where
  "CreateDisplay_id e s display_id event_handler intf =
     (case (event_handler, intf) of
        (Some h, Some out) \<Rightarrow>
          (case m_hw_displays_info s display_id of
             None \<Rightarrow>
               \<lparr>ret = Return kErrorParameters, logs = [LogE_SpuriousDisplayId display_id],
                post = s, intf_written = None\<rparr>
           | Some info \<Rightarrow> construct_display e s (display_type info) (Some display_id) h)
      | _ \<Rightarrow> \<lparr>ret = Return kErrorParameters, logs = [], post = s, intf_written = None\<rparr>)"

text \<open>The object in heap cell \<open>a\<close>, if the cell is live.\<close>

definition display_at :: "state \<Rightarrow> nat \<Rightarrow> DisplayBase option" where
  "display_at s a = (if a < length (display_heap s) then display_heap s ! a else None)"

text \<open>
  Lines 214-226: \<open>DestroyDisplay\<close>. Line 222 calls the object's \<open>Deinit\<close> and drops its
  value. A handle that points to no live object is outside the callers' contract
  (section 3 of the spec); the statements of the source are followed as written.
\<close>

definition DestroyDisplay :: "env \<Rightarrow> state \<Rightarrow> ptr \<Rightarrow> result" where
  "DestroyDisplay e s intf =
     (case intf of
        None \<Rightarrow> \<lparr>ret = Return kErrorParameters, logs = [], post = s\<rparr>
      | Some a \<Rightarrow>
          (let dropped = map_option (DisplayBase_Deinit e) (display_at s a)
           in \<lparr>ret = Return kErrorNone, logs = [], post = delete_display a s\<rparr>))"

section \<open>Lifecycle\<close>

text \<open>
  Lines 102-107, the label \<open>CleanupOnError\<close>: the provider is destroyed when the member
  pointer is not null; the pointer itself is left as it is.
\<close>

definition CleanupOnError :: "DisplayError \<Rightarrow> log_event list \<Rightarrow> state \<Rightarrow> result" where
  "CleanupOnError error lg s =
     (case m_hw_info_intf s of
        Some p \<Rightarrow> \<lparr>ret = Return error, logs = lg, post = s\<lparr>hw_info_live := hw_info_live s - {p}\<rparr>\<rparr>
      | None \<Rightarrow> \<lparr>ret = Return error, logs = lg, post = s\<rparr>)"

text \<open>
  Lines 71-107 of \<open>Init\<close>: everything after the extension-loading step. \<open>lg\<close> holds the
  lines logged so far. A provider handle that \<open>HWInfoInterface::Create\<close> stores is a
  live provider object.
\<close>

definition Init_hw :: "env \<Rightarrow> log_event list \<Rightarrow> state \<Rightarrow> result" where
  "Init_hw e lg s =
     (let (error1, p) = HWInfoInterface_Create e (m_hw_info_intf s);
          s1 = s\<lparr>m_hw_info_intf := p,
                 hw_info_live := (case p of None \<Rightarrow> hw_info_live s
                                  | Some a \<Rightarrow> insert a (hw_info_live s))\<rparr>
      in if error1 \<noteq> kErrorNone then CleanupOnError error1 lg s1
         else if m_hw_info_intf s1 = None
         then \<lparr>ret = Null_dereference, logs = lg, post = s1\<rparr>
         else
           (let (error2, r) = HWInfo_GetHWResourceInfo e (m_hw_resource s1);
                s2 = s1\<lparr>m_hw_resource := r\<rparr>
            in if error2 \<noteq> kErrorNone then CleanupOnError error2 lg s2
               else
                 (let error3 = CompManager_Init e;
                      s3 = s2\<lparr>m_comp_mgr := (error3 = kErrorNone)\<rparr>
                  in if error3 \<noteq> kErrorNone then CleanupOnError error3 lg s3
                     else
                       (let error4 = ColorManagerProxy_Init e;
                            s4 = s3\<lparr>color_manager := (error4 = kErrorNone)\<rparr>;
                            lg4 = (if error4 \<noteq> kErrorNone then lg @ [LogW_ColorManager] else lg);
                            (error5, m) = HWInfo_GetDisplaysStatus e (m_hw_displays_info s4);
                            s5 = s4\<lparr>m_hw_displays_info := m\<rparr>;
                            lg5 = (if error5 \<noteq> kErrorNone
                                   then lg4 @ [LogW_DisplaysStatus error5] else lg4)
                        in \<lparr>ret = Return kErrorNone, logs = lg5,
                            post = s5\<lparr>sigpipe_ignored := True\<rparr>\<rparr>))))"

text \<open>
  Lines 48-108: \<open>Init\<close>. Lines 53-69 load the extension library; the second \<open>Sym\<close> is
  not called when the first one fails (\<open>||\<close>).
\<close>

definition Init :: "env \<Rightarrow> state \<Rightarrow> result" where
  "Init e s =
     (if DynLib_Open e then
        (let s1 = s\<lparr>m_extension_lib := True, m_create_extension_intf := DynLib_Sym_create e\<rparr>
         in if DynLib_Sym_create e = None
            then \<lparr>ret = Return kErrorUndefined, logs = [LogE_UnableToLoadSymbols], post = s1\<rparr>
            else
              (let s2 = s1\<lparr>m_destroy_extension_intf := DynLib_Sym_destroy e\<rparr>
               in if DynLib_Sym_destroy e = None
                  then \<lparr>ret = Return kErrorUndefined, logs = [LogE_UnableToLoadSymbols],
                        post = s2\<rparr>
                  else
                    (let (error, x) = CreateExtensionInterface e (m_extension_intf s2);
                         s3 = s2\<lparr>m_extension_intf := x\<rparr>
                     in if error \<noteq> kErrorNone
                        then \<lparr>ret = Return error, logs = [LogE_UnableToCreateInterface],
                              post = s3\<rparr>
                        else Init_hw e [] s3)))
      else Init_hw e [LogW_UnableToLoad] s)"

text \<open>
  Lines 110-119: \<open>Deinit\<close>. \<open>HWInfoInterface::Destroy\<close> gets the member pointer without
  a null check.
\<close>

definition Deinit :: "env \<Rightarrow> state \<Rightarrow> result" where
  "Deinit e s =
     \<lparr>ret = Return kErrorNone, logs = [],
      post = s\<lparr>color_manager := False, m_comp_mgr := False,
               hw_info_live := (case m_hw_info_intf s of None \<Rightarrow> hw_info_live s
                                | Some p \<Rightarrow> hw_info_live s - {p})\<rparr>\<rparr>"

section \<open>Passthrough queries\<close>

text \<open>Lines 228-232.\<close>

definition SetMaxBandwidthMode :: "env \<Rightarrow> state \<Rightarrow> nat \<Rightarrow> result" where
  "SetMaxBandwidthMode e s mode =
     \<lparr>ret = Return (CompManager_SetMaxBandwidthMode e mode), logs = [], post = s\<rparr>"

text \<open>Lines 234-237. The second component is the content of \<open>*hw_disp_info\<close>.\<close>

definition GetFirstDisplayInterfaceType :: "env \<Rightarrow> state \<Rightarrow> nat \<Rightarrow> result \<times> nat" where
  "GetFirstDisplayInterfaceType e s hw_disp_info =
     (case m_hw_info_intf s of
        None \<Rightarrow> (\<lparr>ret = Null_dereference, logs = [], post = s\<rparr>, hw_disp_info)
      | Some p \<Rightarrow>
          (let (error, info) = HWInfo_GetFirstDisplayInterfaceType e hw_disp_info
           in (\<lparr>ret = Return error, logs = [], post = s\<rparr>, info)))"

text \<open>
  Lines 239-247: \<open>GetDisplaysStatus\<close>. \<open>buf\<close> is the content of the caller's
  \<open>*hw_displays_info\<close>; the provider writes into it, and on success the member is
  assigned from it.
\<close>

definition GetDisplaysStatus :: "env \<Rightarrow> state \<Rightarrow> HWDisplaysInfo \<Rightarrow> status_result" where
  "GetDisplaysStatus e s buf =
     (case m_hw_info_intf s of
        None \<Rightarrow> \<lparr>ret = Null_dereference, logs = [], post = s, buffer = buf\<rparr>
      | Some p \<Rightarrow>
          (let (error, buf') = HWInfo_GetDisplaysStatus e buf
           in if kErrorNone = error
              then \<lparr>ret = Return error, logs = [], post = s\<lparr>m_hw_displays_info := buf'\<rparr>,
                    buffer = buf'\<rparr>
              else \<lparr>ret = Return error, logs = [], post = s, buffer = buf'\<rparr>))"

text \<open>Lines 249-252. The second component is the content of \<open>*max_displays\<close>.\<close>

definition GetMaxDisplaysSupported :: "env \<Rightarrow> state \<Rightarrow> DisplayType \<Rightarrow> int \<Rightarrow> result \<times> int" where
  "GetMaxDisplaysSupported e s type max_displays =
     (case m_hw_info_intf s of
        None \<Rightarrow> (\<lparr>ret = Null_dereference, logs = [], post = s\<rparr>, max_displays)
      | Some p \<Rightarrow>
          (let (error, n) = HWInfo_GetMaxDisplaysSupported e type max_displays
           in (\<lparr>ret = Return error, logs = [], post = s\<rparr>, n)))"

text \<open>Lines 254-257.\<close>

definition IsRotatorSupportedFormat :: "env \<Rightarrow> state \<Rightarrow> nat \<Rightarrow> bool \<times> state" where
  "IsRotatorSupportedFormat e s format = (CompManager_IsRotatorSupportedFormat e format, s)"

section \<open>A concrete configuration\<close>

text \<open>
  An environment in which every collaborator succeeds, and the state of the process
  before the constructor runs. The provider reports one built-in display with id 0 and
  one display with id 7 whose type is none of the three variants.
\<close>

definition snapshot0 :: HWDisplaysInfo where
  "snapshot0 =
     [0 \<mapsto> \<lparr>display_type = kBuiltIn, display_status = 1\<rparr>,
      7 \<mapsto> \<lparr>display_type = kDisplayTypeOther 3, display_status = 1\<rparr>]"

definition all_ok :: env where
  "all_ok =
     \<lparr>DynLib_Open = True,
      DynLib_Sym_create = Some 1,
      DynLib_Sym_destroy = Some 2,
      CreateExtensionInterface = (\<lambda>x. (kErrorNone, Some 3)),
      HWInfoInterface_Create = (\<lambda>x. (kErrorNone, Some 4)),
      HWInfo_GetHWResourceInfo = (\<lambda>x. (kErrorNone, 5)),
      CompManager_Init = kErrorNone,
      ColorManagerProxy_Init = kErrorNone,
      HWInfo_GetDisplaysStatus = (\<lambda>x. (kErrorNone, snapshot0)),
      HWInfo_GetFirstDisplayInterfaceType = (\<lambda>x. (kErrorNone, 0)),
      HWInfo_GetMaxDisplaysSupported = (\<lambda>t x. (kErrorNone, 1)),
      CompManager_SetMaxBandwidthMode = (\<lambda>x. kErrorNone),
      CompManager_IsRotatorSupportedFormat = (\<lambda>x. True),
      operator_new_fails = False,
      DisplayBase_Init = (\<lambda>d. kErrorNone),
      DisplayBase_Deinit = (\<lambda>d. kErrorNone)\<rparr>"

definition blank :: state where
  "blank =
     \<lparr>m_buffer_allocator = None, m_socket_handler = None, m_extension_lib = False,
      m_create_extension_intf = None, m_destroy_extension_intf = None,
      m_extension_intf = None, m_hw_info_intf = None, m_hw_resource = 0,
      m_comp_mgr = False, m_hw_displays_info = Map.empty, hw_info_live = {},
      color_manager = False, sigpipe_ignored = False, display_heap = []\<rparr>"

definition fresh :: state where
  "fresh = CoreImpl (Some 10) (Some 11) blank"

text \<open>The core after a successful \<open>Init\<close> in that environment.\<close>

definition ready :: state where
  "ready = post (Init all_ok fresh)"

text \<open>An environment in which the \<open>Init\<close> of every display object reports \<open>kErrorMemory\<close>.\<close>

definition init_oom :: env where
  "init_oom = all_ok\<lparr>DisplayBase_Init := (\<lambda>d. kErrorMemory)\<rparr>"

text \<open>An environment in which the \<open>Init\<close> of a pluggable display fails.\<close>

definition picky :: env where
  "picky =
     all_ok\<lparr>DisplayBase_Init :=
       (\<lambda>d. if obj_variant d = kPluggable then kErrorOther 9 else kErrorNone)\<rparr>"

text \<open>Environments in which one step of \<open>Init\<close> fails.\<close>

definition comp_mgr_down :: env where
  "comp_mgr_down = all_ok\<lparr>CompManager_Init := kErrorOther 1\<rparr>"

definition color_down :: env where
  "color_down = all_ok\<lparr>ColorManagerProxy_Init := kErrorOther 2\<rparr>"

text \<open>
  Environments in which the extension library does not open, its second entry point
  does not resolve, or its construct entry point reports an error.
\<close>

definition no_extension :: env where
  "no_extension = all_ok\<lparr>DynLib_Open := False\<rparr>"

definition no_destroy_symbol :: env where
  "no_destroy_symbol = all_ok\<lparr>DynLib_Sym_destroy := None\<rparr>"

definition extension_refuses :: env where
  "extension_refuses = all_ok\<lparr>CreateExtensionInterface := (\<lambda>x. (kErrorOther 3, None))\<rparr>"

text \<open>
  Environments in which the provider's status query fails, or reports one pluggable
  display with id 1.
\<close>

definition status_down :: env where
  "status_down = all_ok\<lparr>HWInfo_GetDisplaysStatus := (\<lambda>x. (kErrorOther 4, Map.empty))\<rparr>"

definition replugged :: env where
  "replugged =
     all_ok\<lparr>HWInfo_GetDisplaysStatus :=
       (\<lambda>x. (kErrorNone, [1 \<mapsto> \<lparr>display_type = kPluggable, display_status = 1\<rparr>]))\<rparr>"

section \<open>Results\<close>

lemma new_display_non_null:
  "new_display e s d = Some (p, s') \<Longrightarrow> p \<noteq> None"
  by (auto simp: new_display_def split: if_splits)

lemmas factory_defs =
  CreateDisplay_def CreateDisplay_id_def construct_display_def init_display_def
  new_display_def delete_display_def display_object_def

lemmas sample_defs = all_ok_def blank_def fresh_def CoreImpl_def snapshot0_def

lemma ready_fields:
  "m_hw_displays_info ready = snapshot0"
  "display_heap ready = []"
  "m_hw_info_intf ready = Some 4"
  "m_buffer_allocator ready = Some 10"
  by (simp_all add: ready_def Init_def Init_hw_def Let_def sample_defs)

lemma snapshot0_lookup:
  "snapshot0 0 = Some \<lparr>display_type = kBuiltIn, display_status = 1\<rparr>"
  "snapshot0 7 = Some \<lparr>display_type = kDisplayTypeOther 3, display_status = 1\<rparr>"
  "snapshot0 5 = None"
  by (simp_all add: snapshot0_def)

subsection \<open>Parameter checks of the display factory\<close>

text \<open>
  C5. \<open>CreateDisplay(type, handler, out)\<close> returns \<open>kErrorParameters\<close>, leaves the whole
  state as it was (so no object is constructed) and stores nothing through \<open>out\<close>,
  whenever \<open>handler\<close> is null, \<open>out\<close> is null, or \<open>type\<close> is none of \<open>kBuiltIn\<close>,
  \<open>kPluggable\<close>, \<open>kVirtual\<close>.
\<close>

theorem CreateDisplay_rejects_bad_arguments:
  assumes "event_handler = None \<or> intf = None \<or> type \<notin> {kBuiltIn, kPluggable, kVirtual}"
  shows "ret (CreateDisplay e s type event_handler intf) = Return kErrorParameters
       \<and> post (CreateDisplay e s type event_handler intf) = s
       \<and> intf_written (CreateDisplay e s type event_handler intf) = None"
proof (cases "event_handler = None \<or> intf = None")
  case True
  then show ?thesis
    by (auto simp: CreateDisplay_def split: option.splits)
next
  case False
  with assms obtain n where "type = kDisplayTypeOther n"
    by (cases type) auto
  with False show ?thesis
    by (auto simp: CreateDisplay_def construct_display_def)
qed

theorem CreateDisplay_rejects_bad_arguments_witness:
  "ret (CreateDisplay all_ok fresh kBuiltIn None (Some 2)) = Return kErrorParameters
   \<and> post (CreateDisplay all_ok fresh kPluggable (Some 1) None) = fresh
   \<and> intf_written (CreateDisplay all_ok fresh (kDisplayTypeOther 3) (Some 1) (Some 2)) = None"
  using CreateDisplay_rejects_bad_arguments [of None "Some 2" kBuiltIn all_ok fresh]
        CreateDisplay_rejects_bad_arguments [of "Some 1" None kPluggable all_ok fresh]
        CreateDisplay_rejects_bad_arguments
          [of "Some 1" "Some 2" "kDisplayTypeOther 3" all_ok fresh]
  by simp

text \<open>
  C4. When the cached snapshot has no entry for \<open>display_id\<close>, \<open>CreateDisplay(display_id,
  handler, out)\<close> with non-null \<open>handler\<close> and \<open>out\<close> returns \<open>kErrorParameters\<close>, logs the
  unknown id, stores nothing through \<open>out\<close> and leaves the whole state as it was (no
  construction). The answers of the collaborators play no part: the result is the same
  in every environment.
\<close>

theorem CreateDisplay_id_unknown_id:
  assumes "m_hw_displays_info s display_id = None"
  shows "CreateDisplay_id e s display_id (Some h) (Some out) =
           \<lparr>ret = Return kErrorParameters, logs = [LogE_SpuriousDisplayId display_id],
            post = s, intf_written = None\<rparr>
       \<and> CreateDisplay_id e' s display_id (Some h) (Some out) =
           CreateDisplay_id e s display_id (Some h) (Some out)"
  using assms by (simp add: CreateDisplay_id_def)

theorem CreateDisplay_id_unknown_id_witness:
  "m_hw_displays_info fresh 0 = None
   \<and> CreateDisplay_id all_ok fresh 0 (Some 1) (Some 2) =
       \<lparr>ret = Return kErrorParameters, logs = [LogE_SpuriousDisplayId 0],
        post = fresh, intf_written = None\<rparr>"
proof -
  have absent: "m_hw_displays_info fresh 0 = None"
    by (simp add: fresh_def CoreImpl_def)
  from CreateDisplay_id_unknown_id [OF absent, of all_ok 1 2 all_ok] absent
  show ?thesis by simp
qed

subsection \<open>Destroying a display\<close>

text \<open>
  C10. For every non-null handle \<open>DestroyDisplay\<close> returns \<open>kErrorNone\<close>, whatever the
  display object's \<open>Deinit\<close> returns: replacing \<open>Deinit\<close> by any other function changes
  nothing in the result of the call.
\<close>

theorem DestroyDisplay_always_succeeds:
  "ret (DestroyDisplay e s (Some a)) = Return kErrorNone
   \<and> DestroyDisplay (e\<lparr>DisplayBase_Deinit := f\<rparr>) s (Some a) = DestroyDisplay e s (Some a)"
  by (simp add: DestroyDisplay_def Let_def)

subsection \<open>Construction and the object's own initialisation\<close>

lemma construct_display_named:
  assumes "dtype \<in> {kBuiltIn, kPluggable, kVirtual}" and "\<not> operator_new_fails e"
  shows "construct_display e s dtype display_id h =
           init_display e (s\<lparr>display_heap := display_heap s @ [Some (display_object s dtype display_id h)]\<rparr>)
             (Some (length (display_heap s))) (display_object s dtype display_id h)"
  using assms by (auto simp: construct_display_def new_display_def)

lemma init_display_fails:
  assumes "DisplayBase_Init e d \<noteq> kErrorNone"
  shows "init_display e (s\<lparr>display_heap := display_heap s @ [Some d]\<rparr>)
           (Some (length (display_heap s))) d =
         \<lparr>ret = Return (DisplayBase_Init e d), logs = [],
          post = s\<lparr>display_heap := display_heap s @ [None]\<rparr>, intf_written = None\<rparr>"
  using assms by (simp add: init_display_def delete_display_def Let_def)

lemma init_display_succeeds:
  assumes "DisplayBase_Init e d = kErrorNone"
  shows "init_display e (s\<lparr>display_heap := display_heap s @ [Some d]\<rparr>)
           (Some (length (display_heap s))) d =
         \<lparr>ret = Return kErrorNone, logs = [],
          post = s\<lparr>display_heap := display_heap s @ [Some d]\<rparr>,
          intf_written = Some (length (display_heap s))\<rparr>"
  using assms by (simp add: init_display_def Let_def)

text \<open>
  C2. In both overloads, once a display object has been constructed (non-null
  arguments, one of the three variants selected, the allocation succeeds): if the
  object's own \<open>Init\<close> fails, the call returns that very error, stores nothing through
  \<open>out\<close>, and the heap cell of the object is released again, the rest of the state being
  as before; if it succeeds, the call returns \<open>kErrorNone\<close>, stores the address of the
  object through \<open>out\<close>, and the object is live at that address.
\<close>

theorem CreateDisplay_init_protocol:
  assumes "\<not> operator_new_fails e"
  shows
    "(dtype \<in> {kBuiltIn, kPluggable, kVirtual} \<longrightarrow>
        (if DisplayBase_Init e (display_object s dtype None h) \<noteq> kErrorNone
         then CreateDisplay e s dtype (Some h) (Some out) =
                \<lparr>ret = Return (DisplayBase_Init e (display_object s dtype None h)), logs = [],
                 post = s\<lparr>display_heap := display_heap s @ [None]\<rparr>, intf_written = None\<rparr>
         else CreateDisplay e s dtype (Some h) (Some out) =
                \<lparr>ret = Return kErrorNone, logs = [],
                 post = s\<lparr>display_heap :=
                            display_heap s @ [Some (display_object s dtype None h)]\<rparr>,
                 intf_written = Some (length (display_heap s))\<rparr>))
   \<and> (m_hw_displays_info s display_id = Some info
      \<and> display_type info \<in> {kBuiltIn, kPluggable, kVirtual} \<longrightarrow>
        (if DisplayBase_Init e (display_object s (display_type info) (Some display_id) h)
              \<noteq> kErrorNone
         then CreateDisplay_id e s display_id (Some h) (Some out) =
                \<lparr>ret = Return (DisplayBase_Init e
                                 (display_object s (display_type info) (Some display_id) h)),
                 logs = [],
                 post = s\<lparr>display_heap := display_heap s @ [None]\<rparr>, intf_written = None\<rparr>
         else CreateDisplay_id e s display_id (Some h) (Some out) =
                \<lparr>ret = Return kErrorNone, logs = [],
                 post = s\<lparr>display_heap := display_heap s @
                            [Some (display_object s (display_type info) (Some display_id) h)]\<rparr>,
                 intf_written = Some (length (display_heap s))\<rparr>))"
proof (intro conjI impI)
  assume "dtype \<in> {kBuiltIn, kPluggable, kVirtual}"
  from construct_display_named [OF this assms]
  show "if DisplayBase_Init e (display_object s dtype None h) \<noteq> kErrorNone
        then CreateDisplay e s dtype (Some h) (Some out) =
               \<lparr>ret = Return (DisplayBase_Init e (display_object s dtype None h)), logs = [],
                post = s\<lparr>display_heap := display_heap s @ [None]\<rparr>, intf_written = None\<rparr>
        else CreateDisplay e s dtype (Some h) (Some out) =
               \<lparr>ret = Return kErrorNone, logs = [],
                post = s\<lparr>display_heap :=
                           display_heap s @ [Some (display_object s dtype None h)]\<rparr>,
                intf_written = Some (length (display_heap s))\<rparr>"
    by (simp add: CreateDisplay_def init_display_fails init_display_succeeds)
next
  assume "m_hw_displays_info s display_id = Some info
          \<and> display_type info \<in> {kBuiltIn, kPluggable, kVirtual}"
  then have hit: "m_hw_displays_info s display_id = Some info"
    and named: "display_type info \<in> {kBuiltIn, kPluggable, kVirtual}"
    by simp_all
  from construct_display_named [OF named assms] hit
  show "if DisplayBase_Init e (display_object s (display_type info) (Some display_id) h)
             \<noteq> kErrorNone
        then CreateDisplay_id e s display_id (Some h) (Some out) =
               \<lparr>ret = Return (DisplayBase_Init e
                                (display_object s (display_type info) (Some display_id) h)),
                logs = [],
                post = s\<lparr>display_heap := display_heap s @ [None]\<rparr>, intf_written = None\<rparr>
        else CreateDisplay_id e s display_id (Some h) (Some out) =
               \<lparr>ret = Return kErrorNone, logs = [],
                post = s\<lparr>display_heap := display_heap s @
                           [Some (display_object s (display_type info) (Some display_id) h)]\<rparr>,
                intf_written = Some (length (display_heap s))\<rparr>"
    by (simp add: CreateDisplay_id_def init_display_fails init_display_succeeds)
qed

theorem CreateDisplay_init_protocol_witness:
  "\<not> operator_new_fails picky
   \<and> CreateDisplay picky ready kPluggable (Some 1) (Some 2) =
       \<lparr>ret = Return (kErrorOther 9), logs = [],
        post = ready\<lparr>display_heap := [None]\<rparr>, intf_written = None\<rparr>
   \<and> m_hw_displays_info ready 0 = Some \<lparr>display_type = kBuiltIn, display_status = 1\<rparr>
   \<and> ret (CreateDisplay_id picky ready 0 (Some 1) (Some 2)) = Return kErrorNone
   \<and> intf_written (CreateDisplay_id picky ready 0 (Some 1) (Some 2)) = Some 0
   \<and> display_at (post (CreateDisplay_id picky ready 0 (Some 1) (Some 2))) 0 =
       Some \<lparr>obj_variant = kBuiltIn, obj_display_id = Some 0, obj_event_handler = 1,
             obj_hw_info_intf = Some 4, obj_buffer_allocator = Some 10\<rparr>"
proof -
  have alloc: "\<not> operator_new_fails picky"
    by (simp add: picky_def all_ok_def)
  have hit: "m_hw_displays_info ready 0 = Some \<lparr>display_type = kBuiltIn, display_status = 1\<rparr>"
    by (simp add: ready_fields snapshot0_lookup)
  from CreateDisplay_init_protocol
         [OF alloc, of kPluggable ready 1 2 0 "\<lparr>display_type = kBuiltIn, display_status = 1\<rparr>"]
       alloc hit
  show ?thesis
    by (simp add: picky_def all_ok_def display_object_def display_at_def ready_fields)
qed

text \<open>
  C9, as stated, fails: an overload hands on \<open>kErrorMemory\<close> when the display object's
  own \<open>Init\<close> returns it, although the allocation succeeded.
\<close>

theorem CreateDisplay_returns_kErrorMemory_of_object:
  "operator_new_fails init_oom = False
   \<and> ret (CreateDisplay init_oom ready kVirtual (Some 1) (Some 2)) = Return kErrorMemory
   \<and> ret (CreateDisplay_id init_oom ready 0 (Some 1) (Some 2)) = Return kErrorMemory"
  by (simp add: init_oom_def all_ok_def factory_defs ready_fields snapshot0_lookup)

text \<open>
  C9, amended. In both overloads the null check of \<open>display_base\<close> never fires: a
  \<open>new\<close>-expression yields a non-null pointer or raises \<open>std::bad_alloc\<close> out of the
  function. A call therefore returns \<open>kErrorNone\<close>, returns \<open>kErrorParameters\<close>, raises
  \<open>std::bad_alloc\<close>, or returns the error of the constructed object's own \<open>Init\<close>; it
  returns \<open>kErrorMemory\<close> only when that \<open>Init\<close> returned \<open>kErrorMemory\<close>.
\<close>

theorem CreateDisplay_failure_sources:
  "(new_display e s d = Some (p, s') \<longrightarrow> p \<noteq> None)
   \<and> (ret (CreateDisplay e s type event_handler intf)
      \<in> {Return kErrorNone, Return kErrorParameters, Throw_bad_alloc}
    \<or> (\<exists>h. event_handler = Some h
           \<and> ret (CreateDisplay e s type event_handler intf) =
               Return (DisplayBase_Init e (display_object s type None h))))
   \<and> (ret (CreateDisplay_id e s display_id event_handler intf)
      \<in> {Return kErrorNone, Return kErrorParameters, Throw_bad_alloc}
    \<or> (\<exists>h info. event_handler = Some h \<and> m_hw_displays_info s display_id = Some info
           \<and> ret (CreateDisplay_id e s display_id event_handler intf) =
               Return (DisplayBase_Init e
                         (display_object s (display_type info) (Some display_id) h))))
   \<and> (ret (CreateDisplay e s type event_handler intf) = Return kErrorMemory \<longrightarrow>
        (\<exists>h. event_handler = Some h
           \<and> DisplayBase_Init e (display_object s type None h) = kErrorMemory))
   \<and> (ret (CreateDisplay_id e s display_id event_handler intf) = Return kErrorMemory \<longrightarrow>
        (\<exists>h info. event_handler = Some h \<and> m_hw_displays_info s display_id = Some info
           \<and> DisplayBase_Init e (display_object s (display_type info) (Some display_id) h)
               = kErrorMemory))"
proof -
  have construct:
    "ret (construct_display e s dtype did h)
       \<in> {Return kErrorNone, Return kErrorParameters, Throw_bad_alloc}
     \<or> ret (construct_display e s dtype did h) =
         Return (DisplayBase_Init e (display_object s dtype did h))" for dtype did h
    by (cases dtype) (simp_all add: construct_display_def new_display_def init_display_def Let_def)
  have memory:
    "DisplayBase_Init e (display_object s dtype did h) = kErrorMemory"
    if "ret (construct_display e s dtype did h) = Return kErrorMemory" for dtype did h
    using construct [of dtype did h] that by auto
  have by_type:
    "ret (CreateDisplay e s type event_handler intf)
       \<in> {Return kErrorNone, Return kErrorParameters, Throw_bad_alloc}
     \<or> (\<exists>h. event_handler = Some h
           \<and> ret (CreateDisplay e s type event_handler intf) =
               Return (DisplayBase_Init e (display_object s type None h)))"
    using construct [of type None]
    by (cases event_handler; cases intf) (simp_all add: CreateDisplay_def)
  have by_id:
    "ret (CreateDisplay_id e s display_id event_handler intf)
       \<in> {Return kErrorNone, Return kErrorParameters, Throw_bad_alloc}
     \<or> (\<exists>h info. event_handler = Some h \<and> m_hw_displays_info s display_id = Some info
           \<and> ret (CreateDisplay_id e s display_id event_handler intf) =
               Return (DisplayBase_Init e
                         (display_object s (display_type info) (Some display_id) h)))"
    using construct [of _ "Some display_id"]
    by (cases event_handler; cases intf; cases "m_hw_displays_info s display_id")
       (simp_all add: CreateDisplay_id_def)
  have memory_by_type:
    "\<exists>h. event_handler = Some h
        \<and> DisplayBase_Init e (display_object s type None h) = kErrorMemory"
    if "ret (CreateDisplay e s type event_handler intf) = Return kErrorMemory"
    using that memory [of type None]
    by (cases event_handler; cases intf) (simp_all add: CreateDisplay_def)
  have memory_by_id:
    "\<exists>h info. event_handler = Some h \<and> m_hw_displays_info s display_id = Some info
        \<and> DisplayBase_Init e (display_object s (display_type info) (Some display_id) h)
            = kErrorMemory"
    if "ret (CreateDisplay_id e s display_id event_handler intf) = Return kErrorMemory"
    using that memory [of _ "Some display_id"]
    by (cases event_handler; cases intf; cases "m_hw_displays_info s display_id")
       (simp_all add: CreateDisplay_id_def)
  have non_null: "new_display e s d = Some (p, s') \<longrightarrow> p \<noteq> None"
    using new_display_non_null [of e s d p s'] by blast
  from non_null by_type by_id memory_by_type memory_by_id show ?thesis
    by blast
qed

theorem CreateDisplay_failure_sources_witness:
  "new_display init_oom ready (display_object ready kVirtual None 1) =
     Some (Some 0, ready\<lparr>display_heap := [Some (display_object ready kVirtual None 1)]\<rparr>)
   \<and> ret (CreateDisplay init_oom ready kVirtual (Some 1) (Some 2)) = Return kErrorMemory
   \<and> (\<exists>h. Some (1::nat) = Some h
         \<and> DisplayBase_Init init_oom (display_object ready kVirtual None h) = kErrorMemory)
   \<and> ret (CreateDisplay_id init_oom ready 0 (Some 1) (Some 2)) = Return kErrorMemory
   \<and> (\<exists>h info. Some (1::nat) = Some h \<and> m_hw_displays_info ready 0 = Some info
         \<and> DisplayBase_Init init_oom (display_object ready (display_type info) (Some 0) h)
             = kErrorMemory)"
proof -
  have allocated:
    "new_display init_oom ready (display_object ready kVirtual None 1) =
       Some (Some 0, ready\<lparr>display_heap := [Some (display_object ready kVirtual None 1)]\<rparr>)"
    by (simp add: new_display_def init_oom_def all_ok_def ready_fields)
  have by_type: "ret (CreateDisplay init_oom ready kVirtual (Some 1) (Some 2)) = Return kErrorMemory"
    and by_id: "ret (CreateDisplay_id init_oom ready 0 (Some 1) (Some 2)) = Return kErrorMemory"
    by (simp_all add: init_oom_def all_ok_def factory_defs ready_fields snapshot0_lookup)
  from CreateDisplay_failure_sources
         [of init_oom ready "display_object ready kVirtual None 1" "Some 0"
             "ready\<lparr>display_heap := [Some (display_object ready kVirtual None 1)]\<rparr>"
             kVirtual "Some 1" "Some 2" 0]
       allocated by_type by_id
  show ?thesis by blast
qed

subsection \<open>The cached snapshot and the lookup by id\<close>

text \<open>
  C3. When \<open>GetDisplaysStatus\<close> returns \<open>kErrorNone\<close> and the snapshot it hands back has
  an entry for \<open>display_id\<close>, a following \<open>CreateDisplay(display_id, handler, out)\<close> with
  non-null arguments does not take the unknown-id exit: it logs no unknown id and goes
  on to the \<open>switch\<close> with the display type of that entry, whatever that type is. For
  one of the three variants and a successful allocation the value returned is that of
  the object's own \<open>Init\<close>.
\<close>

theorem CreateDisplay_id_after_GetDisplaysStatus:
  assumes "ret (GetDisplaysStatus e s buf) = Return kErrorNone"
    and "buffer (GetDisplaysStatus e s buf) display_id = Some info"
  shows
    "LogE_SpuriousDisplayId display_id
       \<notin> set (logs (CreateDisplay_id e' (post (GetDisplaysStatus e s buf)) display_id
                      (Some h) (Some out)))
     \<and> CreateDisplay_id e' (post (GetDisplaysStatus e s buf)) display_id (Some h) (Some out) =
         construct_display e' (post (GetDisplaysStatus e s buf)) (display_type info)
           (Some display_id) h
     \<and> (display_type info \<in> {kBuiltIn, kPluggable, kVirtual} \<and> \<not> operator_new_fails e' \<longrightarrow>
          ret (CreateDisplay_id e' (post (GetDisplaysStatus e s buf)) display_id
                 (Some h) (Some out)) =
            Return (DisplayBase_Init e'
                      (display_object (post (GetDisplaysStatus e s buf)) (display_type info)
                         (Some display_id) h)))"
proof -
  let ?s' = "post (GetDisplaysStatus e s buf)"
  from assms have cached: "m_hw_displays_info ?s' display_id = Some info"
    by (auto simp: GetDisplaysStatus_def Let_def split: option.splits prod.splits if_splits)
  then have resolved:
    "CreateDisplay_id e' ?s' display_id (Some h) (Some out) =
       construct_display e' ?s' (display_type info) (Some display_id) h"
    by (simp add: CreateDisplay_id_def)
  have quiet:
    "LogE_SpuriousDisplayId display_id
       \<notin> set (logs (construct_display e' ?s' (display_type info) (Some display_id) h))"
    by (cases "display_type info")
       (simp_all add: construct_display_def new_display_def init_display_def Let_def)
  have reaches_init:
    "ret (construct_display e' ?s' (display_type info) (Some display_id) h) =
       Return (DisplayBase_Init e' (display_object ?s' (display_type info) (Some display_id) h))"
    if "display_type info \<in> {kBuiltIn, kPluggable, kVirtual}" "\<not> operator_new_fails e'"
    using construct_display_named [OF that, of ?s' "Some display_id" h]
    by (simp add: init_display_def Let_def)
  from resolved quiet reaches_init show ?thesis
    by simp
qed

theorem CreateDisplay_id_after_GetDisplaysStatus_witness:
  "ret (GetDisplaysStatus all_ok ready Map.empty) = Return kErrorNone
   \<and> buffer (GetDisplaysStatus all_ok ready Map.empty) 7 =
       Some \<lparr>display_type = kDisplayTypeOther 3, display_status = 1\<rparr>
   \<and> LogE_SpuriousDisplayId 7
       \<notin> set (logs (CreateDisplay_id all_ok (post (GetDisplaysStatus all_ok ready Map.empty)) 7
                      (Some 1) (Some 2)))
   \<and> logs (CreateDisplay_id all_ok (post (GetDisplaysStatus all_ok ready Map.empty)) 7
             (Some 1) (Some 2)) = [LogE_SpuriousDisplayType (kDisplayTypeOther 3)]
   \<and> buffer (GetDisplaysStatus all_ok ready Map.empty) 0 =
       Some \<lparr>display_type = kBuiltIn, display_status = 1\<rparr>
   \<and> ret (CreateDisplay_id picky (post (GetDisplaysStatus all_ok ready Map.empty)) 0
            (Some 1) (Some 2)) = Return kErrorNone"
proof -
  have ok: "ret (GetDisplaysStatus all_ok ready Map.empty) = Return kErrorNone"
    by (simp add: GetDisplaysStatus_def ready_fields all_ok_def)
  have other: "buffer (GetDisplaysStatus all_ok ready Map.empty) 7 =
      Some \<lparr>display_type = kDisplayTypeOther 3, display_status = 1\<rparr>"
    and built_in: "buffer (GetDisplaysStatus all_ok ready Map.empty) 0 =
      Some \<lparr>display_type = kBuiltIn, display_status = 1\<rparr>"
    by (simp_all add: GetDisplaysStatus_def ready_fields all_ok_def snapshot0_lookup)
  have alloc: "\<not> operator_new_fails picky"
    by (simp add: picky_def all_ok_def)
  from CreateDisplay_id_after_GetDisplaysStatus [OF ok other, of all_ok 1 2] ok other
  have spurious:
    "LogE_SpuriousDisplayId 7
       \<notin> set (logs (CreateDisplay_id all_ok (post (GetDisplaysStatus all_ok ready Map.empty)) 7
                      (Some 1) (Some 2)))
     \<and> logs (CreateDisplay_id all_ok (post (GetDisplaysStatus all_ok ready Map.empty)) 7
               (Some 1) (Some 2)) = [LogE_SpuriousDisplayType (kDisplayTypeOther 3)]"
    by (simp add: construct_display_def)
  have init_ok: "DisplayBase_Init picky (display_object s' kBuiltIn (Some 0) 1) = kErrorNone"
    for s'
    by (simp add: picky_def all_ok_def display_object_def)
  from CreateDisplay_id_after_GetDisplaysStatus
         [OF ok built_in, of picky 1 2, THEN conjunct2, THEN conjunct2]
       alloc init_ok
  have created:
    "ret (CreateDisplay_id picky (post (GetDisplaysStatus all_ok ready Map.empty)) 0
            (Some 1) (Some 2)) = Return kErrorNone"
    by simp
  from ok other built_in spurious created show ?thesis
    by simp
qed

subsection \<open>Init: the hard dependencies\<close>

lemma Init_hw_comp_mgr_fails:
  assumes "HWInfoInterface_Create e (m_hw_info_intf s) = (kErrorNone, Some p)"
    and "fst (HWInfo_GetHWResourceInfo e (m_hw_resource s)) = kErrorNone"
    and "CompManager_Init e \<noteq> kErrorNone"
  shows "Init_hw e lg s =
           \<lparr>ret = Return (CompManager_Init e), logs = lg,
            post = s\<lparr>m_hw_info_intf := Some p,
                     hw_info_live := hw_info_live s - {p},
                     m_hw_resource := snd (HWInfo_GetHWResourceInfo e (m_hw_resource s)),
                     m_comp_mgr := False\<rparr>\<rparr>"
  using assms
  by (simp add: Init_hw_def CleanupOnError_def Let_def split_beta)

lemma Init_hw_succeeds:
  assumes "HWInfoInterface_Create e (m_hw_info_intf s) = (kErrorNone, Some p)"
    and "fst (HWInfo_GetHWResourceInfo e (m_hw_resource s)) = kErrorNone"
    and "CompManager_Init e = kErrorNone"
  shows "Init_hw e lg s =
           \<lparr>ret = Return kErrorNone,
            logs = lg @ (if ColorManagerProxy_Init e \<noteq> kErrorNone then [LogW_ColorManager] else [])
                      @ (if fst (HWInfo_GetDisplaysStatus e (m_hw_displays_info s)) \<noteq> kErrorNone
                         then [LogW_DisplaysStatus (fst (HWInfo_GetDisplaysStatus e (m_hw_displays_info s)))]
                         else []),
            post = s\<lparr>m_hw_info_intf := Some p,
                     hw_info_live := insert p (hw_info_live s),
                     m_hw_resource := snd (HWInfo_GetHWResourceInfo e (m_hw_resource s)),
                     m_comp_mgr := True,
                     color_manager := (ColorManagerProxy_Init e = kErrorNone),
                     m_hw_displays_info := snd (HWInfo_GetDisplaysStatus e (m_hw_displays_info s)),
                     sigpipe_ignored := True\<rparr>\<rparr>"
  using assms
  by (simp add: Init_hw_def CleanupOnError_def Let_def split_beta)

lemma Init_extension_passes:
  assumes "\<not> DynLib_Open e
           \<or> (DynLib_Sym_create e \<noteq> None \<and> DynLib_Sym_destroy e \<noteq> None
              \<and> fst (CreateExtensionInterface e (m_extension_intf s)) = kErrorNone)"
  shows "Init e s =
           (if DynLib_Open e
            then Init_hw e []
                   (s\<lparr>m_extension_lib := True,
                      m_create_extension_intf := DynLib_Sym_create e,
                      m_destroy_extension_intf := DynLib_Sym_destroy e,
                      m_extension_intf := snd (CreateExtensionInterface e (m_extension_intf s))\<rparr>)
            else Init_hw e [LogW_UnableToLoad] s)"
  using assms by (auto simp: Init_def Let_def split_beta)


lemmas Init_defs = Init_def Init_hw_def CleanupOnError_def

text \<open>
  C1, as stated, fails: after an \<open>Init\<close> that the Composition Manager made fail, the
  overload of \<open>CreateDisplay\<close> that takes a type has no check of the initialisation
  state; it constructs the object and, when the object's own \<open>Init\<close> succeeds, returns
  it.
\<close>

theorem CreateDisplay_after_failed_Init:
  "CompManager_Init comp_mgr_down = kErrorOther 1
   \<and> ret (Init comp_mgr_down fresh) = Return (kErrorOther 1)
   \<and> m_comp_mgr (post (Init comp_mgr_down fresh)) = False
   \<and> hw_info_live (post (Init comp_mgr_down fresh)) = {}
   \<and> ret (CreateDisplay comp_mgr_down (post (Init comp_mgr_down fresh)) kBuiltIn (Some 1) (Some 2))
       = Return kErrorNone
   \<and> intf_written
        (CreateDisplay comp_mgr_down (post (Init comp_mgr_down fresh)) kBuiltIn (Some 1) (Some 2))
       = Some 0
   \<and> display_at
        (post (CreateDisplay comp_mgr_down (post (Init comp_mgr_down fresh)) kBuiltIn
                 (Some 1) (Some 2))) 0
       = Some \<lparr>obj_variant = kBuiltIn, obj_display_id = None, obj_event_handler = 1,
               obj_hw_info_intf = Some 4, obj_buffer_allocator = Some 10\<rparr>"
  by (simp add: comp_mgr_down_def Init_defs Let_def sample_defs factory_defs display_at_def)

text \<open>
  C1, amended. When \<open>Init\<close> gets as far as the Composition Manager and its \<open>Init\<close>
  fails, \<open>Init\<close> returns exactly that error, the provider it created is no longer live,
  and the cached snapshot is what it was before \<open>Init\<close>. On a core whose snapshot was
  empty (a freshly constructed one) the overload of \<open>CreateDisplay\<close> that takes an id
  then returns \<open>kErrorParameters\<close> for every id, constructing nothing. The overload that
  takes a type is not blocked by the core: for one of the three variants it constructs
  the object and returns what the object's own \<open>Init\<close> returns.
\<close>

theorem Init_comp_mgr_failure:
  assumes "\<not> DynLib_Open e
           \<or> (DynLib_Sym_create e \<noteq> None \<and> DynLib_Sym_destroy e \<noteq> None
              \<and> fst (CreateExtensionInterface e (m_extension_intf s)) = kErrorNone)"
    and "HWInfoInterface_Create e (m_hw_info_intf s) = (kErrorNone, Some p)"
    and "fst (HWInfo_GetHWResourceInfo e (m_hw_resource s)) = kErrorNone"
    and "CompManager_Init e \<noteq> kErrorNone"
  shows
    "ret (Init e s) = Return (CompManager_Init e)
     \<and> p \<notin> hw_info_live (post (Init e s))
     \<and> m_hw_displays_info (post (Init e s)) = m_hw_displays_info s
     \<and> (m_hw_displays_info s = Map.empty \<longrightarrow>
          ret (CreateDisplay_id e' (post (Init e s)) display_id event_handler intf)
            = Return kErrorParameters
          \<and> post (CreateDisplay_id e' (post (Init e s)) display_id event_handler intf)
            = post (Init e s)
          \<and> intf_written (CreateDisplay_id e' (post (Init e s)) display_id event_handler intf)
            = None)
     \<and> (dtype \<in> {kBuiltIn, kPluggable, kVirtual} \<and> \<not> operator_new_fails e' \<longrightarrow>
          ret (CreateDisplay e' (post (Init e s)) dtype (Some h) (Some out))
            = Return (DisplayBase_Init e' (display_object (post (Init e s)) dtype None h)))"
proof -
  have hw: "Init_hw e lg s' =
           \<lparr>ret = Return (CompManager_Init e), logs = lg,
            post = s'\<lparr>m_hw_info_intf := Some p,
                     hw_info_live := hw_info_live s' - {p},
                     m_hw_resource := snd (HWInfo_GetHWResourceInfo e (m_hw_resource s')),
                     m_comp_mgr := False\<rparr>\<rparr>"
    if "m_hw_info_intf s' = m_hw_info_intf s" "m_hw_resource s' = m_hw_resource s" for lg s'
    using Init_hw_comp_mgr_fails [of e s' p lg] assms(2-4) that by simp
  have returned: "ret (Init e s) = Return (CompManager_Init e)"
    and destroyed: "p \<notin> hw_info_live (post (Init e s))"
    and cache: "m_hw_displays_info (post (Init e s)) = m_hw_displays_info s"
    unfolding Init_extension_passes [OF assms(1)] by (simp_all add: hw)
  have by_id:
    "ret (CreateDisplay_id e' (post (Init e s)) display_id event_handler intf)
       = Return kErrorParameters
     \<and> post (CreateDisplay_id e' (post (Init e s)) display_id event_handler intf)
       = post (Init e s)
     \<and> intf_written (CreateDisplay_id e' (post (Init e s)) display_id event_handler intf)
       = None"
    if "m_hw_displays_info s = Map.empty"
    using that cache
    by (cases event_handler; cases intf) (simp_all add: CreateDisplay_id_def)
  have by_type:
    "ret (CreateDisplay e' (post (Init e s)) dtype (Some h) (Some out))
       = Return (DisplayBase_Init e' (display_object (post (Init e s)) dtype None h))"
    if "dtype \<in> {kBuiltIn, kPluggable, kVirtual}" "\<not> operator_new_fails e'"
    using construct_display_named [OF that, of "post (Init e s)" None h]
    by (simp add: CreateDisplay_def init_display_def Let_def)
  from returned destroyed cache by_id by_type show ?thesis
    by blast
qed

theorem Init_comp_mgr_failure_witness:
  "HWInfoInterface_Create comp_mgr_down (m_hw_info_intf fresh) = (kErrorNone, Some 4)
   \<and> CompManager_Init comp_mgr_down = kErrorOther 1
   \<and> ret (Init comp_mgr_down fresh) = Return (kErrorOther 1)
   \<and> 4 \<notin> hw_info_live (post (Init comp_mgr_down fresh))
   \<and> ret (CreateDisplay_id picky (post (Init comp_mgr_down fresh)) 0 (Some 1) (Some 2))
       = Return kErrorParameters
   \<and> ret (CreateDisplay picky (post (Init comp_mgr_down fresh)) kPluggable (Some 1) (Some 2))
       = Return (kErrorOther 9)"
proof -
  have ext: "\<not> DynLib_Open comp_mgr_down
           \<or> (DynLib_Sym_create comp_mgr_down \<noteq> None \<and> DynLib_Sym_destroy comp_mgr_down \<noteq> None
              \<and> fst (CreateExtensionInterface comp_mgr_down (m_extension_intf fresh)) = kErrorNone)"
    by (simp add: comp_mgr_down_def all_ok_def)
  have created: "HWInfoInterface_Create comp_mgr_down (m_hw_info_intf fresh) = (kErrorNone, Some 4)"
    by (simp add: comp_mgr_down_def all_ok_def)
  have resource: "fst (HWInfo_GetHWResourceInfo comp_mgr_down (m_hw_resource fresh)) = kErrorNone"
    by (simp add: comp_mgr_down_def all_ok_def)
  have failing: "CompManager_Init comp_mgr_down \<noteq> kErrorNone"
    and error: "CompManager_Init comp_mgr_down = kErrorOther 1"
    by (simp_all add: comp_mgr_down_def all_ok_def)
  have empty: "m_hw_displays_info fresh = Map.empty"
    by (simp add: fresh_def CoreImpl_def)
  have alloc: "\<not> operator_new_fails picky"
    by (simp add: picky_def all_ok_def)
  from Init_comp_mgr_failure [OF ext created resource failing, where e' = picky and display_id = 0
            and event_handler = "Some 1" and intf = "Some 2" and dtype = kPluggable
            and h = 1 and out = 2]
       created error empty alloc
  show ?thesis
    by (simp add: picky_def all_ok_def display_object_def)
qed

subsection \<open>Init: loading the extension\<close>

lemma Init_hw_keeps_extension:
  "m_extension_intf (post (Init_hw e lg s)) = m_extension_intf s"
  "m_extension_lib (post (Init_hw e lg s)) = m_extension_lib s"
  by (simp_all add: Init_hw_def CleanupOnError_def Let_def split_beta split: option.splits)

text \<open>
  C6. The extension-loading step of \<open>Init\<close>. When the library does not open, \<open>Init\<close>
  goes on with the steps after it on an unchanged state, one warning logged: the
  extension members keep their values, and \<open>Init\<close> returns \<open>kErrorNone\<close> when the hard
  dependencies succeed. When the library opens and either entry point does not
  resolve, \<open>Init\<close> returns \<open>kErrorUndefined\<close> at once: only the members of the
  extension step have changed. When both resolve and the construct entry point returns
  an error, \<open>Init\<close> returns that error at once, again with no later step run.
\<close>

theorem Init_extension_loading:
  "(\<not> DynLib_Open e \<longrightarrow>
      Init e s = Init_hw e [LogW_UnableToLoad] s
      \<and> m_extension_intf (post (Init e s)) = m_extension_intf s
      \<and> m_extension_lib (post (Init e s)) = m_extension_lib s
      \<and> (HWInfoInterface_Create e (m_hw_info_intf s) = (kErrorNone, Some p)
         \<and> fst (HWInfo_GetHWResourceInfo e (m_hw_resource s)) = kErrorNone
         \<and> CompManager_Init e = kErrorNone \<longrightarrow> ret (Init e s) = Return kErrorNone))
   \<and> (DynLib_Open e \<and> (DynLib_Sym_create e = None \<or> DynLib_Sym_destroy e = None) \<longrightarrow>
      ret (Init e s) = Return kErrorUndefined
      \<and> post (Init e s) =
          s\<lparr>m_extension_lib := True,
            m_create_extension_intf := DynLib_Sym_create e,
            m_destroy_extension_intf :=
              (if DynLib_Sym_create e = None then m_destroy_extension_intf s else None)\<rparr>)
   \<and> (DynLib_Open e \<and> DynLib_Sym_create e \<noteq> None \<and> DynLib_Sym_destroy e \<noteq> None
      \<and> fst (CreateExtensionInterface e (m_extension_intf s)) \<noteq> kErrorNone \<longrightarrow>
      ret (Init e s) = Return (fst (CreateExtensionInterface e (m_extension_intf s)))
      \<and> post (Init e s) =
          s\<lparr>m_extension_lib := True,
            m_create_extension_intf := DynLib_Sym_create e,
            m_destroy_extension_intf := DynLib_Sym_destroy e,
            m_extension_intf := snd (CreateExtensionInterface e (m_extension_intf s))\<rparr>)"
proof (intro conjI impI)
  assume closed: "\<not> DynLib_Open e"
  then show continues: "Init e s = Init_hw e [LogW_UnableToLoad] s"
    by (simp add: Init_def)
  show "m_extension_intf (post (Init e s)) = m_extension_intf s"
    and "m_extension_lib (post (Init e s)) = m_extension_lib s"
    unfolding continues by (rule Init_hw_keeps_extension)+
  assume "HWInfoInterface_Create e (m_hw_info_intf s) = (kErrorNone, Some p)
          \<and> fst (HWInfo_GetHWResourceInfo e (m_hw_resource s)) = kErrorNone
          \<and> CompManager_Init e = kErrorNone"
  then show "ret (Init e s) = Return kErrorNone"
    unfolding continues by (simp add: Init_hw_succeeds)
next
  assume "DynLib_Open e \<and> (DynLib_Sym_create e = None \<or> DynLib_Sym_destroy e = None)"
  then show "ret (Init e s) = Return kErrorUndefined"
    and "post (Init e s) =
          s\<lparr>m_extension_lib := True,
            m_create_extension_intf := DynLib_Sym_create e,
            m_destroy_extension_intf :=
              (if DynLib_Sym_create e = None then m_destroy_extension_intf s else None)\<rparr>"
    by (auto simp: Init_def Let_def)
next
  assume "DynLib_Open e \<and> DynLib_Sym_create e \<noteq> None \<and> DynLib_Sym_destroy e \<noteq> None
      \<and> fst (CreateExtensionInterface e (m_extension_intf s)) \<noteq> kErrorNone"
  then show "ret (Init e s) = Return (fst (CreateExtensionInterface e (m_extension_intf s)))"
    and "post (Init e s) =
          s\<lparr>m_extension_lib := True,
            m_create_extension_intf := DynLib_Sym_create e,
            m_destroy_extension_intf := DynLib_Sym_destroy e,
            m_extension_intf := snd (CreateExtensionInterface e (m_extension_intf s))\<rparr>"
    by (auto simp: Init_def Let_def split_beta)
qed

theorem Init_extension_loading_witness:
  "ret (Init no_extension fresh) = Return kErrorNone
   \<and> m_extension_intf (post (Init no_extension fresh)) = None
   \<and> ret (Init no_destroy_symbol fresh) = Return kErrorUndefined
   \<and> hw_info_live (post (Init no_destroy_symbol fresh)) = {}
   \<and> ret (Init extension_refuses fresh) = Return (kErrorOther 3)
   \<and> hw_info_live (post (Init extension_refuses fresh)) = {}"
proof -
  have closed: "\<not> DynLib_Open no_extension"
    and hard: "HWInfoInterface_Create no_extension (m_hw_info_intf fresh) = (kErrorNone, Some 4)
         \<and> fst (HWInfo_GetHWResourceInfo no_extension (m_hw_resource fresh)) = kErrorNone
         \<and> CompManager_Init no_extension = kErrorNone"
    by (simp_all add: no_extension_def all_ok_def)
  have unresolved: "DynLib_Open no_destroy_symbol
      \<and> (DynLib_Sym_create no_destroy_symbol = None \<or> DynLib_Sym_destroy no_destroy_symbol = None)"
    by (simp add: no_destroy_symbol_def all_ok_def)
  have refused: "DynLib_Open extension_refuses \<and> DynLib_Sym_create extension_refuses \<noteq> None
      \<and> DynLib_Sym_destroy extension_refuses \<noteq> None
      \<and> fst (CreateExtensionInterface extension_refuses (m_extension_intf fresh)) \<noteq> kErrorNone"
    and code: "fst (CreateExtensionInterface extension_refuses (m_extension_intf fresh)) = kErrorOther 3"
    by (simp_all add: extension_refuses_def all_ok_def)
  have none: "m_extension_intf fresh = None" and dead: "hw_info_live fresh = {}"
    by (simp_all add: fresh_def CoreImpl_def blank_def)
  from Init_extension_loading [of no_extension fresh 4] closed hard
  have "ret (Init no_extension fresh) = Return kErrorNone
      \<and> m_extension_intf (post (Init no_extension fresh)) = m_extension_intf fresh"
    by blast
  with none have first: "ret (Init no_extension fresh) = Return kErrorNone
      \<and> m_extension_intf (post (Init no_extension fresh)) = None"
    by simp
  from Init_extension_loading [of no_destroy_symbol fresh 4] unresolved dead
  have second: "ret (Init no_destroy_symbol fresh) = Return kErrorUndefined
      \<and> hw_info_live (post (Init no_destroy_symbol fresh)) = {}"
    by simp
  from Init_extension_loading [of extension_refuses fresh 4] refused code dead
  have third: "ret (Init extension_refuses fresh) = Return (kErrorOther 3)
      \<and> hw_info_live (post (Init extension_refuses fresh)) = {}"
    by simp
  from first second third show ?thesis by simp
qed


subsection \<open>Init: the Color Manager\<close>

text \<open>
  C7. When every hard-dependency step of \<open>Init\<close> succeeds and the Color Manager's
  \<open>Init\<close> fails, \<open>Init\<close> returns \<open>kErrorNone\<close>; the failure shows only in the log and
  in the Color Manager itself. The core is set up (Composition Manager initialised,
  provider live, snapshot cached), and both overloads of \<open>CreateDisplay\<close> return a
  display whenever the allocation and the object's own \<open>Init\<close> succeed.
\<close>

theorem Init_color_manager_failure:
  assumes "\<not> DynLib_Open e
           \<or> (DynLib_Sym_create e \<noteq> None \<and> DynLib_Sym_destroy e \<noteq> None
              \<and> fst (CreateExtensionInterface e (m_extension_intf s)) = kErrorNone)"
    and "HWInfoInterface_Create e (m_hw_info_intf s) = (kErrorNone, Some p)"
    and "fst (HWInfo_GetHWResourceInfo e (m_hw_resource s)) = kErrorNone"
    and "CompManager_Init e = kErrorNone"
    and "ColorManagerProxy_Init e \<noteq> kErrorNone"
  shows
    "ret (Init e s) = Return kErrorNone
     \<and> LogW_ColorManager \<in> set (logs (Init e s))
     \<and> \<not> color_manager (post (Init e s))
     \<and> m_comp_mgr (post (Init e s))
     \<and> m_hw_info_intf (post (Init e s)) = Some p
     \<and> p \<in> hw_info_live (post (Init e s))
     \<and> m_hw_displays_info (post (Init e s)) =
         snd (HWInfo_GetDisplaysStatus e (m_hw_displays_info s))
     \<and> (dtype \<in> {kBuiltIn, kPluggable, kVirtual} \<and> \<not> operator_new_fails e'
        \<and> DisplayBase_Init e' (display_object (post (Init e s)) dtype None h) = kErrorNone \<longrightarrow>
          ret (CreateDisplay e' (post (Init e s)) dtype (Some h) (Some out)) = Return kErrorNone
          \<and> intf_written (CreateDisplay e' (post (Init e s)) dtype (Some h) (Some out))
              = Some (length (display_heap s)))
     \<and> (snd (HWInfo_GetDisplaysStatus e (m_hw_displays_info s)) display_id = Some info
        \<and> display_type info \<in> {kBuiltIn, kPluggable, kVirtual} \<and> \<not> operator_new_fails e'
        \<and> DisplayBase_Init e'
              (display_object (post (Init e s)) (display_type info) (Some display_id) h)
            = kErrorNone \<longrightarrow>
          ret (CreateDisplay_id e' (post (Init e s)) display_id (Some h) (Some out))
            = Return kErrorNone
          \<and> intf_written (CreateDisplay_id e' (post (Init e s)) display_id (Some h) (Some out))
              = Some (length (display_heap s)))"
proof -
  have hw: "Init_hw e lg s' =
           \<lparr>ret = Return kErrorNone,
            logs = lg @ [LogW_ColorManager]
                      @ (if fst (HWInfo_GetDisplaysStatus e (m_hw_displays_info s')) \<noteq> kErrorNone
                         then [LogW_DisplaysStatus
                                 (fst (HWInfo_GetDisplaysStatus e (m_hw_displays_info s')))]
                         else []),
            post = s'\<lparr>m_hw_info_intf := Some p,
                      hw_info_live := insert p (hw_info_live s'),
                      m_hw_resource := snd (HWInfo_GetHWResourceInfo e (m_hw_resource s')),
                      m_comp_mgr := True,
                      color_manager := False,
                      m_hw_displays_info :=
                        snd (HWInfo_GetDisplaysStatus e (m_hw_displays_info s')),
                      sigpipe_ignored := True\<rparr>\<rparr>"
    if "m_hw_info_intf s' = m_hw_info_intf s" "m_hw_resource s' = m_hw_resource s" for lg s'
    using Init_hw_succeeds [of e s' p lg] assms(2-5) that by simp
  have returned: "ret (Init e s) = Return kErrorNone"
    and logged: "LogW_ColorManager \<in> set (logs (Init e s))"
    and degraded: "\<not> color_manager (post (Init e s))"
    and comp: "m_comp_mgr (post (Init e s))"
    and handle: "m_hw_info_intf (post (Init e s)) = Some p"
    and live: "p \<in> hw_info_live (post (Init e s))"
    and cache: "m_hw_displays_info (post (Init e s)) =
         snd (HWInfo_GetDisplaysStatus e (m_hw_displays_info s))"
    and heap: "display_heap (post (Init e s)) = display_heap s"
    unfolding Init_extension_passes [OF assms(1)] by (simp_all add: hw)
  have by_type:
    "ret (CreateDisplay e' (post (Init e s)) dtype (Some h) (Some out)) = Return kErrorNone
     \<and> intf_written (CreateDisplay e' (post (Init e s)) dtype (Some h) (Some out))
         = Some (length (display_heap s))"
    if "dtype \<in> {kBuiltIn, kPluggable, kVirtual}" "\<not> operator_new_fails e'"
      "DisplayBase_Init e' (display_object (post (Init e s)) dtype None h) = kErrorNone"
    using construct_display_named [OF that(1,2), of "post (Init e s)" None h] that(3) heap
    by (simp add: CreateDisplay_def init_display_def Let_def)
  have by_id:
    "ret (CreateDisplay_id e' (post (Init e s)) display_id (Some h) (Some out))
       = Return kErrorNone
     \<and> intf_written (CreateDisplay_id e' (post (Init e s)) display_id (Some h) (Some out))
         = Some (length (display_heap s))"
    if "snd (HWInfo_GetDisplaysStatus e (m_hw_displays_info s)) display_id = Some info"
      "display_type info \<in> {kBuiltIn, kPluggable, kVirtual}" "\<not> operator_new_fails e'"
      "DisplayBase_Init e'
         (display_object (post (Init e s)) (display_type info) (Some display_id) h)
       = kErrorNone"
    using construct_display_named [OF that(2,3), of "post (Init e s)" "Some display_id" h]
      that(1,4) heap cache
    by (simp add: CreateDisplay_id_def init_display_def Let_def)
  from returned logged degraded comp handle live cache by_type by_id show ?thesis
    by blast
qed

theorem Init_color_manager_failure_witness:
  "ColorManagerProxy_Init color_down = kErrorOther 2
   \<and> ret (Init color_down fresh) = Return kErrorNone
   \<and> LogW_ColorManager \<in> set (logs (Init color_down fresh))
   \<and> ret (CreateDisplay all_ok (post (Init color_down fresh)) kVirtual (Some 1) (Some 2))
       = Return kErrorNone
   \<and> intf_written (CreateDisplay all_ok (post (Init color_down fresh)) kVirtual (Some 1) (Some 2))
       = Some 0
   \<and> ret (CreateDisplay_id all_ok (post (Init color_down fresh)) 0 (Some 1) (Some 2))
       = Return kErrorNone"
proof -
  have ext: "\<not> DynLib_Open color_down
           \<or> (DynLib_Sym_create color_down \<noteq> None \<and> DynLib_Sym_destroy color_down \<noteq> None
              \<and> fst (CreateExtensionInterface color_down (m_extension_intf fresh)) = kErrorNone)"
    and created: "HWInfoInterface_Create color_down (m_hw_info_intf fresh) = (kErrorNone, Some 4)"
    and resource: "fst (HWInfo_GetHWResourceInfo color_down (m_hw_resource fresh)) = kErrorNone"
    and comp: "CompManager_Init color_down = kErrorNone"
    and failing: "ColorManagerProxy_Init color_down \<noteq> kErrorNone"
    and code: "ColorManagerProxy_Init color_down = kErrorOther 2"
    by (simp_all add: color_down_def all_ok_def)
  have listed: "snd (HWInfo_GetDisplaysStatus color_down (m_hw_displays_info fresh)) 0 =
      Some \<lparr>display_type = kBuiltIn, display_status = 1\<rparr>"
    by (simp add: color_down_def all_ok_def snapshot0_lookup)
  have env: "\<not> operator_new_fails all_ok" "DisplayBase_Init all_ok d = kErrorNone" for d
    by (simp_all add: all_ok_def)
  have heap: "display_heap fresh = []"
    by (simp add: fresh_def CoreImpl_def blank_def)
  from Init_color_manager_failure
         [OF ext created resource comp failing, where e' = all_ok and dtype = kVirtual
            and h = 1 and out = 2 and display_id = 0
            and info = "\<lparr>display_type = kBuiltIn, display_status = 1\<rparr>"]
       code listed env heap
  show ?thesis by simp
qed

subsection \<open>Who writes the cached snapshot\<close>

text \<open>
  C8. Of the public operations other than \<open>Init\<close>, only \<open>GetDisplaysStatus\<close> writes the
  cached snapshot, and only when the provider's query returns \<open>kErrorNone\<close>: the cache
  then holds the snapshot handed back to the caller. A failed \<open>GetDisplaysStatus\<close>,
  both overloads of \<open>CreateDisplay\<close>, \<open>DestroyDisplay\<close>, \<open>Deinit\<close> and the other
  passthrough queries leave it as it was.
\<close>

theorem cached_snapshot_frame:
  "m_hw_displays_info (post (CreateDisplay e s type event_handler intf)) = m_hw_displays_info s
   \<and> m_hw_displays_info (post (CreateDisplay_id e s display_id event_handler intf))
       = m_hw_displays_info s
   \<and> m_hw_displays_info (post (DestroyDisplay e s handle)) = m_hw_displays_info s
   \<and> m_hw_displays_info (post (SetMaxBandwidthMode e s mode)) = m_hw_displays_info s
   \<and> m_hw_displays_info (post (fst (GetFirstDisplayInterfaceType e s hw_disp_info)))
       = m_hw_displays_info s
   \<and> m_hw_displays_info (post (fst (GetMaxDisplaysSupported e s type max_displays)))
       = m_hw_displays_info s
   \<and> m_hw_displays_info (snd (IsRotatorSupportedFormat e s format)) = m_hw_displays_info s
   \<and> m_hw_displays_info (post (Deinit e s)) = m_hw_displays_info s
   \<and> m_hw_displays_info (post (GetDisplaysStatus e s buf)) =
       (if ret (GetDisplaysStatus e s buf) = Return kErrorNone
        then buffer (GetDisplaysStatus e s buf) else m_hw_displays_info s)"
proof -
  have construct:
    "m_hw_displays_info (post (construct_display e s dtype did h)) = m_hw_displays_info s"
    for dtype did h
    by (cases dtype)
       (simp_all add: construct_display_def new_display_def init_display_def delete_display_def
          Let_def)
  have by_type:
    "m_hw_displays_info (post (CreateDisplay e s type event_handler intf)) = m_hw_displays_info s"
    by (cases event_handler; cases intf) (simp_all add: CreateDisplay_def construct)
  have by_id:
    "m_hw_displays_info (post (CreateDisplay_id e s display_id event_handler intf))
       = m_hw_displays_info s"
    by (cases event_handler; cases intf; cases "m_hw_displays_info s display_id")
       (simp_all add: CreateDisplay_id_def construct)
  have destroy: "m_hw_displays_info (post (DestroyDisplay e s handle)) = m_hw_displays_info s"
    by (cases handle) (simp_all add: DestroyDisplay_def delete_display_def Let_def)
  have bandwidth:
    "m_hw_displays_info (post (SetMaxBandwidthMode e s mode)) = m_hw_displays_info s"
    by (simp add: SetMaxBandwidthMode_def)
  have first_type:
    "m_hw_displays_info (post (fst (GetFirstDisplayInterfaceType e s hw_disp_info)))
       = m_hw_displays_info s"
    by (cases "m_hw_info_intf s")
       (simp_all add: GetFirstDisplayInterfaceType_def Let_def split_beta)
  have max_displays:
    "m_hw_displays_info (post (fst (GetMaxDisplaysSupported e s type max_displays)))
       = m_hw_displays_info s"
    by (cases "m_hw_info_intf s")
       (simp_all add: GetMaxDisplaysSupported_def Let_def split_beta)
  have rotator:
    "m_hw_displays_info (snd (IsRotatorSupportedFormat e s format)) = m_hw_displays_info s"
    by (simp add: IsRotatorSupportedFormat_def)
  have deinit: "m_hw_displays_info (post (Deinit e s)) = m_hw_displays_info s"
    by (simp add: Deinit_def)
  have status:
    "m_hw_displays_info (post (GetDisplaysStatus e s buf)) =
       (if ret (GetDisplaysStatus e s buf) = Return kErrorNone
        then buffer (GetDisplaysStatus e s buf) else m_hw_displays_info s)"
    by (cases "m_hw_info_intf s") (simp_all add: GetDisplaysStatus_def Let_def split_beta)
  from by_type by_id destroy bandwidth first_type max_displays rotator deinit status
  show ?thesis by simp
qed

theorem cached_snapshot_frame_witness:
  "ret (GetDisplaysStatus status_down ready Map.empty) = Return (kErrorOther 4)
   \<and> m_hw_displays_info (post (GetDisplaysStatus status_down ready Map.empty)) = snapshot0
   \<and> ret (GetDisplaysStatus replugged ready Map.empty) = Return kErrorNone
   \<and> m_hw_displays_info (post (GetDisplaysStatus replugged ready Map.empty)) =
       [1 \<mapsto> \<lparr>display_type = kPluggable, display_status = 1\<rparr>]
   \<and> m_hw_displays_info (post (CreateDisplay all_ok ready kBuiltIn (Some 1) (Some 2))) = snapshot0"
proof -
  have failed: "ret (GetDisplaysStatus status_down ready Map.empty) = Return (kErrorOther 4)"
    by (simp add: GetDisplaysStatus_def ready_fields status_down_def all_ok_def)
  have ok: "ret (GetDisplaysStatus replugged ready Map.empty) = Return kErrorNone"
    and snapshot: "buffer (GetDisplaysStatus replugged ready Map.empty) =
        [1 \<mapsto> \<lparr>display_type = kPluggable, display_status = 1\<rparr>]"
    by (simp_all add: GetDisplaysStatus_def ready_fields replugged_def all_ok_def)
  from cached_snapshot_frame
         [of replugged ready kBuiltIn "Some 1" "Some 2" 0 None 0 0 0 0 Map.empty]
       cached_snapshot_frame
         [of status_down ready kBuiltIn "Some 1" "Some 2" 0 None 0 0 0 0 Map.empty]
       cached_snapshot_frame
         [of all_ok ready kBuiltIn "Some 1" "Some 2" 0 None 0 0 0 0 Map.empty]
       failed ok snapshot
  show ?thesis by (simp add: ready_fields)
qed

end
